theory Spec2Isabelle
  imports Complex_Main
begin

section \<open>Tensors and concatenation along the leading dimension\<close>

text \<open>
  The evaluation driver \<^verbatim>\<open>verl/trainer/eval_on_data.py\<close> moves tensors around but never looks
  inside their elements, so a tensor is its shape together with its elements in row-major
  order. The element type is a parameter (dtype and device are not modelled: all tensors of one
  parameter are taken to live on one device). A tensor of the runtime always holds as many
  elements as its shape says (\<open>wf_tensor\<close>).
\<close>

record 'a tensor =
  shape :: "nat list"
  entries :: "'a list"

definition wf_tensor :: "'a tensor \<Rightarrow> bool" where
  "wf_tensor t = (length (entries t) = prod_list (shape t))"

text \<open>
  The exceptions the driver can end with. The three \<^verbatim>\<open>ValueError\<close>s of
  \<^verbatim>\<open>load_sharded_model\<close> are kept apart by what they report (lines 26, 36 and 46).
\<close>

datatype exn =
    NoCheckpointFiles
  | InconsistentWorldSize "nat set"
  | MissingShardFile string
  | RuntimeError
  | TypeError
  | IndexError
  | KeyError
  | AssertionError
  | ZeroDivisionError

text \<open>
  \<^verbatim>\<open>torch.cat(tensors, dim=0)\<close> of the tensor library, as the library documents it: the list must
  not be empty, no tensor may be zero-dimensional, one-dimensional empty tensors (shape \<open>[0]\<close>)
  are skipped, and all remaining tensors must agree in every dimension but the first; every
  violation is a \<^verbatim>\<open>RuntimeError\<close>. The result stacks the remaining tensors in list order.
\<close>

definition torch_cat :: "'a tensor list \<Rightarrow> exn + 'a tensor" where
  "torch_cat ts =
     (if ts = [] then Inl RuntimeError
      else if list_ex (\<lambda>t. shape t = []) ts then Inl RuntimeError
      else (case filter (\<lambda>t. shape t \<noteq> [0]) ts of
              [] \<Rightarrow> Inr \<lparr>shape = [0], entries = []\<rparr>
            | t0 # rest \<Rightarrow>
                if list_all (\<lambda>t. tl (shape t) = tl (shape t0)) rest
                then Inr \<lparr>shape = sum_list (map (\<lambda>t. hd (shape t)) (t0 # rest)) # tl (shape t0),
                          entries = concat (map entries (t0 # rest))\<rparr>
                else Inl RuntimeError))"

text \<open>
  What a state dict can hold once it is local: a tensor, or some other Python object (a number,
  \<^verbatim>\<open>None\<close>, ...), kept as its printed form. \<^verbatim>\<open>torch.cat\<close> raises \<^verbatim>\<open>TypeError\<close> when an
  element of its list is not a tensor.
\<close>

datatype 'a py_value = Tensor "'a tensor" | PyObject string

fun the_tensors :: "'a py_value list \<Rightarrow> 'a tensor list option" where
  "the_tensors [] = Some []"
| "the_tensors (Tensor t # vs) = map_option ((#) t) (the_tensors vs)"
| "the_tensors (PyObject s # vs) = None"

definition cat_values :: "'a py_value list \<Rightarrow> exn + 'a tensor" where
  "cat_values vs =
     (case the_tensors vs of
        None \<Rightarrow> Inl TypeError
      | Some ts \<Rightarrow> torch_cat ts)"

text \<open>
  What \<^verbatim>\<open>torch.load\<close> yields for one entry of a shard: a value without a \<^verbatim>\<open>to_local\<close>
  attribute, or a distributed tensor, whose \<^verbatim>\<open>to_local()\<close> is the rank's local tensor.
  \<open>to_local\<close> is lines 52-53 of the source.
\<close>

datatype 'a shard_value = Local "'a py_value" | DTensor "'a tensor"

fun to_local :: "'a shard_value \<Rightarrow> 'a py_value" where
  "to_local (DTensor t) = Tensor t"
| "to_local (Local v) = v"

section \<open>Shard file names\<close>

text \<open>
  File names are byte strings. \<open>glob_match\<close> is the shell pattern of \<^verbatim>\<open>Path.glob\<close> for a
  pattern whose only special character is \<^verbatim>\<open>*\<close> (any run of characters, possibly empty).
\<close>

fun glob_match :: "string \<Rightarrow> string \<Rightarrow> bool" where
  "glob_match [] s = (s = [])"
| "glob_match (p # ps) s =
     (if p = CHR ''*''
      then (glob_match ps s \<or> (case s of [] \<Rightarrow> False | _ # cs \<Rightarrow> glob_match (p # ps) cs))
      else (case s of [] \<Rightarrow> False | c # cs \<Rightarrow> c = p \<and> glob_match ps cs))"

definition is_digit :: "char \<Rightarrow> bool" where
  "is_digit c = (c \<in> set ''0123456789'')"

definition digit_val :: "char \<Rightarrow> nat" where
  "digit_val c = length (takeWhile (\<lambda>d. d \<noteq> c) ''0123456789'')"

definition digit_char :: "nat \<Rightarrow> char" where
  "digit_char n = ''0123456789'' ! n"

fun strip_prefix :: "string \<Rightarrow> string \<Rightarrow> string option" where
  "strip_prefix [] s = Some s"
| "strip_prefix (p # ps) [] = None"
| "strip_prefix (p # ps) (c # cs) = (if p = c then strip_prefix ps cs else None)"

text \<open>
  \<^verbatim>\<open>re.compile(r"model_world_size_(\d+)_rank_(\d+)\.pt").match(name)\<close>: anchored at the
  start of the name only. Each \<^verbatim>\<open>\d+\<close> is followed by a character that is no digit, so the
  greedy match takes the longest run of digits and never backtracks into it. The result is the
  two groups. (Names are ASCII here: no digit outside \<^verbatim>\<open>0-9\<close>.)
\<close>

definition pattern_match :: "string \<Rightarrow> (string \<times> string) option" where
  "pattern_match name =
     (case strip_prefix ''model_world_size_'' name of
        None \<Rightarrow> None
      | Some r1 \<Rightarrow>
          (let g1 = takeWhile is_digit r1 in
           if g1 = [] then None
           else (case strip_prefix ''_rank_'' (dropWhile is_digit r1) of
                   None \<Rightarrow> None
                 | Some r2 \<Rightarrow>
                     (let g2 = takeWhile is_digit r2 in
                      if g2 = [] then None
                      else (case strip_prefix ''.pt'' (dropWhile is_digit r2) of
                              None \<Rightarrow> None
                            | Some r3 \<Rightarrow> Some (g1, g2))))))"

text \<open>\<^verbatim>\<open>int(s)\<close> on a string of decimal digits, and \<^verbatim>\<open>str(n)\<close> as an f-string prints it.\<close>

definition py_int :: "string \<Rightarrow> nat" where
  "py_int s = foldl (\<lambda>n c. 10 * n + digit_val c) 0 s"

fun py_str :: "nat \<Rightarrow> string" where
  "py_str n = (if n < 10 then [digit_char n] else py_str (n div 10) @ [digit_char (n mod 10)])"

declare py_str.simps [simp del]

definition shard_name :: "nat \<Rightarrow> nat \<Rightarrow> string" where
  "shard_name world_size rank =
     ''model_world_size_'' @ py_str world_size @ ''_rank_'' @ py_str rank @ ''.pt''"

section \<open>Loading a sharded checkpoint\<close>

text \<open>
  A shard file is the dict \<^verbatim>\<open>torch.load\<close> returns for it, in its own key order; a checkpoint
  directory is the list of its files (name and content). The state being built is the
  \<^verbatim>\<open>defaultdict(list)\<close> of the source, in insertion order.
\<close>

type_synonym 'a shard = "(string \<times> 'a shard_value) list"

type_synonym 'a checkpoint_dir = "(string \<times> 'a shard) list"

type_synonym 'v list_dict = "(string \<times> 'v list) list"

definition shard_files :: "'a checkpoint_dir \<Rightarrow> string list" where
  "shard_files d = filter (glob_match ''model_world_size_*_rank_*.pt'') (map fst d)"

text \<open>Lines 29-33: the set of world sizes, kept as a list without repetitions.\<close>

fun world_sizes :: "string list \<Rightarrow> nat list \<Rightarrow> nat list" where
  "world_sizes [] ws = ws"
| "world_sizes (file # files) ws =
     (case pattern_match file of
        Some (g1, g2) \<Rightarrow> world_sizes files (List.insert (py_int g1) ws)
      | None \<Rightarrow> world_sizes files ws)"

text \<open>\<^verbatim>\<open>state_dict[key].append(value)\<close> on a \<^verbatim>\<open>defaultdict(list)\<close>.\<close>

fun append_value :: "string \<Rightarrow> 'v \<Rightarrow> 'v list_dict \<Rightarrow> 'v list_dict" where
  "append_value key v [] = [(key, [v])]"
| "append_value key v ((k, vs) # sd) =
     (if k = key then (k, vs @ [v]) # sd else (k, vs) # append_value key v sd)"

text \<open>Lines 51-54: the items of one shard, in order.\<close>

fun add_shard :: "'a shard \<Rightarrow> 'a py_value list_dict \<Rightarrow> 'a py_value list_dict" where
  "add_shard [] sd = sd"
| "add_shard ((key, v) # items) sd = add_shard items (append_value key (to_local v) sd)"

text \<open>Lines 43-54: the loop over the ranks; the first missing file ends it.\<close>

fun load_shards :: "'a checkpoint_dir \<Rightarrow> nat \<Rightarrow> nat list \<Rightarrow> 'a py_value list_dict \<Rightarrow> exn + 'a py_value list_dict" where
  "load_shards d world_size [] sd = Inr sd"
| "load_shards d world_size (rank # ranks) sd =
     (let filepath = shard_name world_size rank in
      case map_of d filepath of
        None \<Rightarrow> Inl (MissingShardFile filepath)
      | Some shard_dict \<Rightarrow> load_shards d world_size ranks (add_shard shard_dict sd))"

text \<open>
  Lines 58-64, for one key: the concatenation, or on \<^verbatim>\<open>RuntimeError\<close> or \<^verbatim>\<open>TypeError\<close> the
  first value of the list (\<^verbatim>\<open>state_dict[key][0]\<close>, an \<^verbatim>\<open>IndexError\<close> on an empty list).
\<close>

definition consolidate_key :: "'a py_value list \<Rightarrow> exn + 'a py_value" where
  "consolidate_key vs =
     (case cat_values vs of
        Inr t \<Rightarrow> Inr (Tensor t)
      | Inl RuntimeError \<Rightarrow> (case vs of [] \<Rightarrow> Inl IndexError | v # _ \<Rightarrow> Inr v)
      | Inl TypeError \<Rightarrow> (case vs of [] \<Rightarrow> Inl IndexError | v # _ \<Rightarrow> Inr v)
      | Inl e \<Rightarrow> Inl e)"

fun consolidate :: "'a py_value list_dict \<Rightarrow> (string \<times> 'a py_value) list \<Rightarrow> exn + (string \<times> 'a py_value) list" where
  "consolidate [] consolidated = Inr consolidated"
| "consolidate ((key, vs) # sd) consolidated =
     (case consolidate_key vs of
        Inl e \<Rightarrow> Inl e
      | Inr v \<Rightarrow> consolidate sd (consolidated @ [(key, v)]))"

definition load_sharded_model :: "'a checkpoint_dir \<Rightarrow> exn + (string \<times> 'a py_value) list" where
  "load_sharded_model d =
     (let files = shard_files d in
      if files = [] then Inl NoCheckpointFiles
      else (let ws = world_sizes files [] in
            if length ws \<noteq> 1 then Inl (InconsistentWorldSize (set ws))
            else (let world_size = hd ws in
                  case load_shards d world_size [0..<world_size] [] of
                    Inl e \<Rightarrow> Inl e
                  | Inr sd \<Rightarrow> consolidate sd [])))"

section \<open>Batches\<close>

text \<open>
  A batch (\<^verbatim>\<open>DataProto\<close>) is a mapping of named tensors together with named non-tensor arrays,
  all with one entry per example, and a dict of meta information. A named tensor is kept as the
  list of its rows (an example's token ids), a non-tensor array as the list of its entries
  (labels are strings). \<open>batch_size\<close> is the example count the tensor dict carries even when it
  has no key left.
\<close>

datatype meta_value = MInt "int option" | MBool bool

record data_proto =
  batch_size :: nat
  batch :: "(string \<times> int list list) list"
  non_tensor_batch :: "(string \<times> string list) list"
  meta_info :: "(string \<times> meta_value) list"

definition wf_data_proto :: "data_proto \<Rightarrow> bool" where
  "wf_data_proto dp =
     (list_all (\<lambda>(k, rows). length rows = batch_size dp) (batch dp) \<and>
      list_all (\<lambda>(k, rows). length rows = batch_size dp) (non_tensor_batch dp))"

text \<open>
  Modelled from the spec: \<^verbatim>\<open>pad_dataproto_to_divisor\<close> of \<^verbatim>\<open>verl.protocol\<close>, which is not
  among the sources. The spec: "pad the batch so its example count is divisible by a required
  divisor". The padding examples are taken from the batch itself, from its first example on and
  around again, so that the count is reached for every batch; the second result is the number
  of examples added.
\<close>

definition pad_rows :: "nat \<Rightarrow> 'r list \<Rightarrow> 'r list" where
  "pad_rows pad_size rows = rows @ take pad_size (concat (replicate pad_size rows))"

definition pad_dataproto_to_divisor :: "data_proto \<Rightarrow> nat \<Rightarrow> exn + (data_proto \<times> nat)" where
  "pad_dataproto_to_divisor data size_divisor =
     (if size_divisor = 0 then Inl ZeroDivisionError
      else if batch_size data mod size_divisor \<noteq> 0
      then (let pad_size = size_divisor - batch_size data mod size_divisor in
            Inr (data\<lparr>batch_size := batch_size data + pad_size,
                      batch := map (\<lambda>(k, rows). (k, pad_rows pad_size rows)) (batch data),
                      non_tensor_batch :=
                        map (\<lambda>(k, rows). (k, pad_rows pad_size rows)) (non_tensor_batch data)\<rparr>,
                 pad_size))
      else Inr (data, 0))"

text \<open>
  Modelled from the spec: \<^verbatim>\<open>unpad_dataproto\<close> of \<^verbatim>\<open>verl.protocol\<close>, which is not among the
  sources. The spec: "remove the padding before scoring": the last \<open>pad_size\<close> examples go.
\<close>

definition unpad_dataproto :: "data_proto \<Rightarrow> nat \<Rightarrow> data_proto" where
  "unpad_dataproto data pad_size =
     (if pad_size \<noteq> 0
      then data\<lparr>batch_size := batch_size data - pad_size,
                batch := map (\<lambda>(k, rows). (k, take (length rows - pad_size) rows)) (batch data),
                non_tensor_batch :=
                  map (\<lambda>(k, rows). (k, take (length rows - pad_size) rows)) (non_tensor_batch data)\<rparr>
      else data)"

text \<open>
  Modelled from the spec: \<^verbatim>\<open>DataProto.pop\<close> of \<^verbatim>\<open>verl.protocol\<close>, which is not among the
  sources. The spec: "strip decoding-irrelevant fields": the named tensors leave the batch and
  form a batch of their own; a name the batch does not hold is an error. The result is the batch
  that remains and the batch popped.
\<close>

definition pop :: "string list \<Rightarrow> data_proto \<Rightarrow> exn + (data_proto \<times> data_proto)" where
  "pop batch_keys dp =
     (if list_all (\<lambda>k. map_of (batch dp) k \<noteq> None) batch_keys
      then Inr (dp\<lparr>batch := filter (\<lambda>(k, rows). k \<notin> set batch_keys) (batch dp)\<rparr>,
                \<lparr>batch_size = batch_size dp,
                 batch = filter (\<lambda>(k, rows). k \<in> set batch_keys) (batch dp),
                 non_tensor_batch = [],
                 meta_info = []\<rparr>)
      else Inl AssertionError)"

text \<open>
  Modelled from the spec: \<^verbatim>\<open>DataProto.union\<close> of \<^verbatim>\<open>verl.protocol\<close>, which is not among the
  sources. The spec: "Merge generation outputs back into the original batch": the fields of the
  second batch join those of the first; the two must have the same example count, and a field
  both hold must be the same in both.
\<close>

fun union_dict :: "(string \<times> 'v) list \<Rightarrow> (string \<times> 'v) list \<Rightarrow> exn + (string \<times> 'v) list" where
  "union_dict d1 [] = Inr d1"
| "union_dict d1 ((k, v) # d2) =
     (case map_of d1 k of
        None \<Rightarrow> union_dict (d1 @ [(k, v)]) d2
      | Some v1 \<Rightarrow> if v1 = v then union_dict d1 d2 else Inl AssertionError)"

definition union_proto :: "data_proto \<Rightarrow> data_proto \<Rightarrow> exn + data_proto" where
  "union_proto a b =
     (if batch_size a \<noteq> batch_size b then Inl AssertionError
      else (case union_dict (batch a) (batch b) of
              Inl e \<Rightarrow> Inl e
            | Inr tensors \<Rightarrow>
                (case union_dict (non_tensor_batch a) (non_tensor_batch b) of
                   Inl e \<Rightarrow> Inl e
                 | Inr non_tensors \<Rightarrow>
                     (case union_dict (meta_info a) (meta_info b) of
                        Inl e \<Rightarrow> Inl e
                      | Inr meta \<Rightarrow>
                          Inr \<lparr>batch_size = batch_size a, batch = tensors,
                               non_tensor_batch = non_tensors, meta_info = meta\<rparr>))))"

section \<open>Reward tensors\<close>

text \<open>
  Rewards are floating-point numbers in the program; here they are real numbers, so sums and
  means are exact. \<open>sum_last\<close> is \<^verbatim>\<open>t.sum(-1)\<close>, \<open>tensor_row t i\<close> is \<^verbatim>\<open>t[i]\<close> for an index in
  range, \<open>tensor_rows\<close> lists them (one Python object each after \<^verbatim>\<open>tolist()\<close>), and \<open>item\<close> is
  \<^verbatim>\<open>t.item()\<close>, defined for a tensor of one element only.
\<close>

definition sum_last :: "real tensor \<Rightarrow> real tensor" where
  "sum_last t =
     (case shape t of
        [] \<Rightarrow> t
      | n # sh \<Rightarrow>
          (let m = last (n # sh); outer = butlast (n # sh) in
           \<lparr>shape = outer,
            entries = map (\<lambda>i. sum_list (take m (drop (i * m) (entries t)))) [0..<prod_list outer]\<rparr>))"

definition tensor_row :: "'a tensor \<Rightarrow> nat \<Rightarrow> 'a tensor" where
  "tensor_row t i =
     (let sh = tl (shape t); k = prod_list sh in
      \<lparr>shape = sh, entries = take k (drop (i * k) (entries t))\<rparr>)"

definition tensor_rows :: "'a tensor \<Rightarrow> 'a tensor list" where
  "tensor_rows t = map (tensor_row t) [0..<hd (shape t)]"

definition item :: "'a tensor \<Rightarrow> exn + 'a" where
  "item t = (case entries t of [x] \<Rightarrow> Inr x | _ \<Rightarrow> Inl RuntimeError)"

definition mean :: "real list \<Rightarrow> real" where
  "mean xs = sum_list xs / real (length xs)"

section \<open>The evaluation run\<close>

text \<open>
  The collaborators of \<^verbatim>\<open>main\<close> are parameters: the tokenizer, the rollout (which generates
  from the weights it was built on: the pretrained ones, overlaid with the consolidated state
  when a checkpoint is configured) and the reward function. The data loader is the list of the
  batches it yields, each already a \<^verbatim>\<open>DataProto\<close>.
\<close>

record tokenizer =
  decode :: "int list \<Rightarrow> string"
  eos_token_id :: "int option"
  pad_token_id :: "int option"

record eval_state =
  sample_inputs :: "string list"
  sample_outputs :: "string list"
  sample_scores :: "real tensor list"
  reward_tensor_lst :: "real tensor list"
  data_source_lst :: "string list list"

text \<open>Lines 137-168: from the loaded batch to the batch merged with the generation output.\<close>

definition generate_for_batch ::
  "tokenizer \<Rightarrow> (data_proto \<Rightarrow> data_proto) \<Rightarrow> data_proto \<Rightarrow>
     exn + (data_proto \<times> string list \<times> string list)" where
  "generate_for_batch tok generate_sequences data =
     (case map_of (batch data) ''input_ids'' of
        None \<Rightarrow> Inl KeyError
      | Some input_ids \<Rightarrow>
          (let input_texts = map (decode tok) input_ids in
           case pop [''input_ids'', ''attention_mask'', ''position_ids''] data of
             Inl e \<Rightarrow> Inl e
           | Inr (test_batch, popped) \<Rightarrow>
               (let test_gen_batch = popped\<lparr>meta_info :=
                      [(''eos_token_id'', MInt (eos_token_id tok)),
                       (''pad_token_id'', MInt (pad_token_id tok)),
                       (''recompute_log_prob'', MBool False),
                       (''do_sample'', MBool False),
                       (''validate'', MBool True)]\<rparr> in
                case pad_dataproto_to_divisor test_gen_batch 1 of
                  Inl e \<Rightarrow> Inl e
                | Inr (test_gen_batch_padded, pad_size) \<Rightarrow>
                    (let test_output_gen_batch_padded = generate_sequences test_gen_batch_padded;
                         test_output_gen_batch =
                           unpad_dataproto test_output_gen_batch_padded pad_size in
                     case map_of (batch test_output_gen_batch) ''responses'' of
                       None \<Rightarrow> Inl KeyError
                     | Some output_ids \<Rightarrow>
                         (let output_texts = map (decode tok) output_ids in
                          case union_proto test_batch test_output_gen_batch of
                            Inl e \<Rightarrow> Inl e
                          | Inr merged \<Rightarrow> Inr (merged, input_texts, output_texts))))))"

text \<open>
  Lines 174-178: the labels of a batch. The default of \<^verbatim>\<open>dict.get\<close> is computed whether or
  not the field is there, so \<^verbatim>\<open>reward_tensor.shape[0]\<close> must exist.
\<close>

definition batch_data_source :: "data_proto \<Rightarrow> real tensor \<Rightarrow> exn + string list" where
  "batch_data_source test_batch reward_tensor =
     (case shape reward_tensor of
        [] \<Rightarrow> Inl IndexError
      | n # sh \<Rightarrow>
          (case map_of (non_tensor_batch test_batch) ''data_source'' of
             None \<Rightarrow> Inr (replicate n ''unknown'')
           | Some labels \<Rightarrow> Inr labels))"

text \<open>
  Lines 137-178, one pass of the loop. \<^verbatim>\<open>sample_scores.extend(scores)\<close> needs a list: a summed
  tensor without dimensions gives a number, and \<^verbatim>\<open>extend\<close> raises \<^verbatim>\<open>TypeError\<close>.
\<close>

definition eval_batch ::
  "tokenizer \<Rightarrow> (data_proto \<Rightarrow> data_proto) \<Rightarrow> (data_proto \<Rightarrow> real tensor) \<Rightarrow>
     eval_state \<Rightarrow> data_proto \<Rightarrow> exn + eval_state" where
  "eval_batch tok generate_sequences val_reward_fn st data =
     (case generate_for_batch tok generate_sequences data of
        Inl e \<Rightarrow> Inl e
      | Inr (test_batch, input_texts, output_texts) \<Rightarrow>
          (let reward_tensor = val_reward_fn test_batch;
               scores = sum_last reward_tensor in
           if shape scores = [] then Inl TypeError
           else (case batch_data_source test_batch reward_tensor of
                   Inl e \<Rightarrow> Inl e
                 | Inr labels \<Rightarrow>
                     Inr \<lparr>sample_inputs = sample_inputs st @ input_texts,
                          sample_outputs = sample_outputs st @ output_texts,
                          sample_scores = sample_scores st @ tensor_rows scores,
                          reward_tensor_lst = reward_tensor_lst st @ [reward_tensor],
                          data_source_lst = data_source_lst st @ [labels]\<rparr>)))"

fun eval_loop ::
  "tokenizer \<Rightarrow> (data_proto \<Rightarrow> data_proto) \<Rightarrow> (data_proto \<Rightarrow> real tensor) \<Rightarrow>
     eval_state \<Rightarrow> data_proto list \<Rightarrow> exn + eval_state" where
  "eval_loop tok generate_sequences val_reward_fn st [] = Inr st"
| "eval_loop tok generate_sequences val_reward_fn st (data # val_dataloader) =
     (case eval_batch tok generate_sequences val_reward_fn st data of
        Inl e \<Rightarrow> Inl e
      | Inr st' \<Rightarrow> eval_loop tok generate_sequences val_reward_fn st' val_dataloader)"

text \<open>
  Lines 183-188: the loop over the examples. \<^verbatim>\<open>data_sources[i]\<close> raises \<^verbatim>\<open>IndexError\<close> past
  the end of the labels; lines 186-188 are \<open>append_value\<close>.
\<close>

fun group_rewards ::
  "real tensor \<Rightarrow> string list \<Rightarrow> nat list \<Rightarrow> real list_dict \<Rightarrow> exn + real list_dict" where
  "group_rewards reward_tensor data_sources [] data_source_reward = Inr data_source_reward"
| "group_rewards reward_tensor data_sources (i # rest) data_source_reward =
     (if length data_sources \<le> i then Inl IndexError
      else (let data_source = data_sources ! i in
            case item (tensor_row reward_tensor i) of
              Inl e \<Rightarrow> Inl e
            | Inr r \<Rightarrow>
                group_rewards reward_tensor data_sources rest
                  (append_value data_source r data_source_reward)))"

text \<open>Lines 180-194; the result is the \<^verbatim>\<open>metric_dict\<close> that is printed.\<close>

definition report :: "eval_state \<Rightarrow> exn + (string \<times> real) list" where
  "report st =
     (case torch_cat (reward_tensor_lst st) of
        Inl e \<Rightarrow> Inl e
      | Inr cat \<Rightarrow>
          (let reward_tensor = sum_last cat;
               data_sources = concat (data_source_lst st) in
           case shape reward_tensor of
             [] \<Rightarrow> Inl IndexError
           | n # sh \<Rightarrow>
               (case group_rewards reward_tensor data_sources [0..<n] [] of
                  Inl e \<Rightarrow> Inl e
                | Inr data_source_reward \<Rightarrow>
                    Inr (map (\<lambda>(data_source, rewards).
                                (''val/test_score/'' @ data_source, mean rewards))
                             data_source_reward))))"

text \<open>Lines 122-194: the run once model, tokenizer and data loader exist.\<close>

definition evaluate ::
  "tokenizer \<Rightarrow> (data_proto \<Rightarrow> data_proto) \<Rightarrow> (data_proto \<Rightarrow> real tensor) \<Rightarrow>
     data_proto list \<Rightarrow> exn + (string \<times> real) list" where
  "evaluate tok generate_sequences val_reward_fn val_dataloader =
     (if \<not> 1 \<le> length val_dataloader then Inl AssertionError
      else (case eval_loop tok generate_sequences val_reward_fn
                   \<lparr>sample_inputs = [], sample_outputs = [], sample_scores = [],
                    reward_tensor_lst = [], data_source_lst = []\<rparr> val_dataloader of
              Inl e \<Rightarrow> Inl e
            | Inr st \<Rightarrow> report st))"

text \<open>
  \<^verbatim>\<open>main\<close>: lines 96-99 load the checkpoint when one is configured, and the rollout is built
  on the weights that result.
\<close>

definition main ::
  "'a checkpoint_dir option \<Rightarrow> tokenizer \<Rightarrow>
     ((string \<times> 'a py_value) list option \<Rightarrow> data_proto \<Rightarrow> data_proto) \<Rightarrow>
     (data_proto \<Rightarrow> real tensor) \<Rightarrow> data_proto list \<Rightarrow> exn + (string \<times> real) list" where
  "main fsdp_checkpoint_path tok hfrollout val_reward_fn val_dataloader =
     (case fsdp_checkpoint_path of
        None \<Rightarrow> evaluate tok (hfrollout None) val_reward_fn val_dataloader
      | Some d \<Rightarrow>
          (case load_sharded_model d of
             Inl e \<Rightarrow> Inl e
           | Inr state_dict \<Rightarrow>
               evaluate tok (hfrollout (Some state_dict)) val_reward_fn val_dataloader))"

definition embedded_world_sizes :: "'a checkpoint_dir \<Rightarrow> nat set" where
  "embedded_world_sizes d =
     set (map (\<lambda>(g1, g2). py_int g1) (List.map_filter pattern_match (shard_files d)))"

definition key_values :: "string \<Rightarrow> 'a shard \<Rightarrow> 'a py_value list" where
  "key_values k s = map (\<lambda>(k', v). to_local v) (filter (\<lambda>(k', v). k' = k) s)"

definition rank_values :: "'a checkpoint_dir \<Rightarrow> nat \<Rightarrow> nat list \<Rightarrow> string \<Rightarrow> 'a py_value list" where
  "rank_values d W ranks k =
     concat (map (\<lambda>r. case map_of d (shard_name W r) of None \<Rightarrow> [] | Some s \<Rightarrow> key_values k s) ranks)"

definition vals :: "'a py_value list_dict \<Rightarrow> string \<Rightarrow> 'a py_value list" where
  "vals sd k = (case map_of sd k of None \<Rightarrow> [] | Some vs \<Rightarrow> vs)"

definition sd_inv :: "'a py_value list_dict \<Rightarrow> bool" where
  "sd_inv sd = (distinct (map fst sd) \<and> list_all (\<lambda>(k, vs). vs \<noteq> []) sd)"

definition pick :: "'a py_value list \<Rightarrow> 'a py_value" where
  "pick vs = (case cat_values vs of Inr t \<Rightarrow> Tensor t | Inl e \<Rightarrow> hd vs)"

definition ckpt2 :: "int checkpoint_dir" where
  "ckpt2 =
     [(''model_world_size_2_rank_0.pt'',
         [(''w'', DTensor \<lparr>shape = [1, 2], entries = [1, 2]\<rparr>),
          (''s'', Local (Tensor \<lparr>shape = [], entries = [7]\<rparr>))]),
      (''model_world_size_2_rank_1.pt'',
         [(''w'', DTensor \<lparr>shape = [2, 2], entries = [3, 4, 5, 6]\<rparr>),
          (''s'', Local (Tensor \<lparr>shape = [], entries = [7]\<rparr>))])]"

definition ckpt_mixed :: "int checkpoint_dir" where
  "ckpt_mixed =
     [(''model_world_size_2_rank_0.pt'', [(''w'', DTensor \<lparr>shape = [1], entries = [1]\<rparr>)]),
      (''model_world_size_4_rank_1.pt'', [(''w'', DTensor \<lparr>shape = [1], entries = [2]\<rparr>)])]"

definition ckpt_gap :: "int checkpoint_dir" where
  "ckpt_gap =
     [(''model_world_size_3_rank_0.pt'', [(''w'', DTensor \<lparr>shape = [1], entries = [1]\<rparr>)]),
      (''model_world_size_3_rank_2.pt'', [(''w'', DTensor \<lparr>shape = [1], entries = [3]\<rparr>)])]"

definition ckpt_mismatch :: "int checkpoint_dir" where
  "ckpt_mismatch =
     [(''model_world_size_2_rank_0.pt'',
         [(''w'', DTensor \<lparr>shape = [1, 2], entries = [1, 2]\<rparr>),
          (''b'', DTensor \<lparr>shape = [1], entries = [8]\<rparr>)]),
      (''model_world_size_2_rank_1.pt'',
         [(''w'', DTensor \<lparr>shape = [1, 3], entries = [3, 4, 5]\<rparr>),
          (''b'', DTensor \<lparr>shape = [1], entries = [9]\<rparr>)])]"

definition junk :: "int shard" where
  "junk = [(''w'', DTensor \<lparr>shape = [5], entries = [0, 0, 0, 0, 0]\<rparr>)]"

definition ckpt_unmatched :: "int checkpoint_dir" where
  "ckpt_unmatched = [(''model_world_size_x_rank_y.pt'', junk)]"

lemma world_sizes_set:
  "set (world_sizes files ws) =
     set ws \<union> set (map (\<lambda>(g1, g2). py_int g1) (List.map_filter pattern_match files))"
  by (induction files arbitrary: ws) (auto simp: List.map_filter_simps split: option.splits)

lemma world_sizes_distinct: "distinct ws \<Longrightarrow> distinct (world_sizes files ws)"
  by (induction files arbitrary: ws) (auto split: option.splits)

lemma world_sizes_single:
  "embedded_world_sizes d = {W} \<Longrightarrow> world_sizes (shard_files d) [] = [W]"
proof -
  assume a: "embedded_world_sizes d = {W}"
  define ws where "ws = world_sizes (shard_files d) []"
  have s: "set ws = {W}" using a by (simp add: ws_def world_sizes_set embedded_world_sizes_def)
  have dd: "distinct ws" by (simp add: ws_def world_sizes_distinct)
  from s dd have "length ws = 1"
    by (metis card_distinct distinct_card is_singletonI is_singleton_altdef)
  with s show "world_sizes (shard_files d) [] = [W]"
    unfolding ws_def[symmetric] by (cases ws) auto
qed

lemma world_sizes_length:
  "length (world_sizes (shard_files d) []) = card (embedded_world_sizes d)"
  by (simp add: world_sizes_set embedded_world_sizes_def world_sizes_distinct distinct_card[symmetric])

lemma embedded_nonempty_files: "embedded_world_sizes d \<noteq> {} \<Longrightarrow> shard_files d \<noteq> []"
  by (auto simp: embedded_world_sizes_def List.map_filter_simps)

lemma keys_append_value:
  "map fst (append_value k v sd) = (if k \<in> fst ` set sd then map fst sd else map fst sd @ [k])"
  by (induction sd) (force simp: image_iff)+

lemma sd_inv_append_value: "sd_inv sd \<Longrightarrow> sd_inv (append_value k v sd)"
proof -
  assume inv: "sd_inv sd"
  have d: "distinct (map fst (append_value k v sd))"
    using inv by (simp add: keys_append_value sd_inv_def)
  have "list_all (\<lambda>(k, vs). vs \<noteq> []) sd \<Longrightarrow> list_all (\<lambda>(k, vs). vs \<noteq> []) (append_value k v sd)"
    by (induction sd) auto
  then show ?thesis using inv d by (simp add: sd_inv_def)
qed

lemma vals_append_value:
  "vals (append_value k v sd) k' = (if k' = k then vals sd k @ [v] else vals sd k')"
  by (induction sd) (auto simp: vals_def)

lemma sd_inv_add_shard: "sd_inv sd \<Longrightarrow> sd_inv (add_shard s sd)"
  by (induction s sd rule: add_shard.induct) (auto simp: sd_inv_append_value)

lemma vals_add_shard: "vals (add_shard s sd) k = vals sd k @ key_values k s"
  by (induction s sd rule: add_shard.induct) (auto simp: vals_append_value key_values_def)

lemma load_shards_ok:
  "\<forall>r\<in>set ranks. map_of d (shard_name W r) \<noteq> None \<Longrightarrow> sd_inv sd \<Longrightarrow>
   \<exists>sd'. load_shards d W ranks sd = Inr sd' \<and> sd_inv sd' \<and>
         (\<forall>k. vals sd' k = vals sd k @ rank_values d W ranks k)"
proof (induction ranks arbitrary: sd)
  case Nil
  then show ?case by (simp add: rank_values_def)
next
  case (Cons r ranks)
  then obtain s where s: "map_of d (shard_name W r) = Some s" by auto
  have inv: "sd_inv (add_shard s sd)" using Cons.prems(2) by (rule sd_inv_add_shard)
  from Cons.IH[OF _ inv] Cons.prems(1)
  obtain sd' where sd': "load_shards d W ranks (add_shard s sd) = Inr sd'" "sd_inv sd'"
    "\<forall>k. vals sd' k = vals (add_shard s sd) k @ rank_values d W ranks k" by auto
  show ?case using s sd' by (simp add: vals_add_shard rank_values_def)
qed

lemma load_shards_missing:
  "map_of d (shard_name W r) = None \<Longrightarrow> \<forall>r'\<in>set pre. map_of d (shard_name W r') \<noteq> None \<Longrightarrow>
   load_shards d W (pre @ r # post) sd = Inl (MissingShardFile (shard_name W r))"
  by (induction pre arbitrary: sd) auto

lemma torch_cat_error: "torch_cat ts = Inl e \<Longrightarrow> e = RuntimeError"
  by (auto simp: torch_cat_def split: if_splits list.splits)

lemma cat_values_error: "cat_values vs = Inl e \<Longrightarrow> e = RuntimeError \<or> e = TypeError"
  by (auto simp: cat_values_def split: option.splits dest: torch_cat_error)

lemma consolidate_key_ok: "vs \<noteq> [] \<Longrightarrow> consolidate_key vs = Inr (pick vs)"
proof -
  assume ne: "vs \<noteq> []"
  then obtain v vs' where vs: "vs = v # vs'" by (cases vs) auto
  show ?thesis
  proof (cases "cat_values vs")
    case (Inl e)
    then have "e = RuntimeError \<or> e = TypeError" by (rule cat_values_error)
    then show ?thesis using Inl vs by (auto simp: consolidate_key_def pick_def)
  next
    case (Inr t)
    then show ?thesis by (simp add: consolidate_key_def pick_def)
  qed
qed

lemma consolidate_ok:
  "list_all (\<lambda>(k, vs). vs \<noteq> []) sd \<Longrightarrow>
   consolidate sd acc = Inr (acc @ map (\<lambda>(k, vs). (k, pick vs)) sd)"
  by (induction sd acc rule: consolidate.induct) (auto simp: consolidate_key_ok)

lemma map_of_picked:
  "sd_inv sd \<Longrightarrow> map_of (map (\<lambda>(k, vs). (k, pick vs)) sd) k =
     (case vals sd k of [] \<Rightarrow> None | v # vs \<Rightarrow> Some (pick (v # vs)))"
  by (induction sd) (auto simp: sd_inv_def vals_def split: list.splits)

lemma load_sharded_model_ok:
  assumes "embedded_world_sizes d = {W}" "\<forall>r<W. map_of d (shard_name W r) \<noteq> None"
  shows "\<exists>res. load_sharded_model d = Inr res \<and> distinct (map fst res) \<and>
           (\<forall>k. map_of res k = (case rank_values d W [0..<W] k of [] \<Rightarrow> None
                                  | v # vs \<Rightarrow> Some (pick (v # vs))))"
proof -
  have ws: "world_sizes (shard_files d) [] = [W]" using assms(1) by (rule world_sizes_single)
  have ne: "shard_files d \<noteq> []" using assms(1) embedded_nonempty_files[of d] by simp
  have "sd_inv []" by (simp add: sd_inv_def)
  from load_shards_ok[OF _ this, of "[0..<W]" d W] assms(2)
  obtain sd where sd: "load_shards d W [0..<W] [] = Inr sd" "sd_inv sd"
    "\<forall>k. vals sd k = vals [] k @ rank_values d W [0..<W] k" by auto
  have v: "\<And>k. vals sd k = rank_values d W [0..<W] k" using sd(3) by (simp add: vals_def)
  have c: "consolidate sd [] = Inr (map (\<lambda>(k, vs). (k, pick vs)) sd)"
    using consolidate_ok[of sd "[]"] sd(2) by (simp add: sd_inv_def)
  have l: "load_sharded_model d = Inr (map (\<lambda>(k, vs). (k, pick vs)) sd)"
    using ws ne sd(1) c by (simp add: load_sharded_model_def)
  have dist: "distinct (map fst (map (\<lambda>(k, vs). (k, pick vs)) sd))"
    using sd(2) by (simp add: sd_inv_def comp_def case_prod_unfold)
  show ?thesis using l dist map_of_picked[OF sd(2)] v by simp
qed

lemma strip_prefix_append: "strip_prefix p (p @ s) = Some s"
  by (induction p) auto

lemma digit_char_is_digit: "k < 10 \<Longrightarrow> is_digit (digit_char k)"
proof -
  assume "k < 10"
  then have "k \<in> {0,1,2,3,4,5,6,7,8,9}" by auto
  then show ?thesis by (auto simp: is_digit_def digit_char_def)
qed

lemma digit_val_digit_char: "k < 10 \<Longrightarrow> digit_val (digit_char k) = k"
proof -
  assume "k < 10"
  then have "k \<in> {0,1,2,3,4,5,6,7,8,9}" by auto
  then show ?thesis by (auto simp: digit_val_def digit_char_def)
qed

lemma py_str_digits: "list_all is_digit (py_str n)"
proof (induction n rule: py_str.induct)
  case (1 n)
  show ?case
  proof (cases n rule: py_str.cases)
    case (1 m)
    then show ?thesis using "1.IH" 
      by (subst py_str.simps) (auto simp: digit_char_is_digit)
  qed
qed

lemma py_str_nonempty: "py_str n \<noteq> []"
  by (subst py_str.simps) auto

lemma py_int_snoc: "py_int (s @ [c]) = 10 * py_int s + digit_val c"
  by (simp add: py_int_def)

lemma py_int_py_str: "py_int (py_str n) = n"
proof (induction n rule: py_str.induct)
  case (1 n)
  have "n < 10 \<or> \<not> n < 10" by simp
  then show ?case
  proof
    assume "n < 10"
    then show ?thesis by (subst py_str.simps) (simp add: py_int_def digit_val_digit_char)
  next
    assume a: "\<not> n < 10"
    then have "py_int (py_str (n div 10)) = n div 10" using "1.IH" by simp
    then show ?thesis using a
      by (subst py_str.simps) (simp add: py_int_snoc digit_val_digit_char)
  qed
qed

lemma takeWhile_digits:
  "list_all is_digit ds \<Longrightarrow> \<not> is_digit c \<Longrightarrow> takeWhile is_digit (ds @ c # s) = ds"
  by (induction ds) auto

lemma dropWhile_digits:
  "list_all is_digit ds \<Longrightarrow> \<not> is_digit c \<Longrightarrow> dropWhile is_digit (ds @ c # s) = c # s"
  by (induction ds) auto

lemma pattern_match_shard_name:
  "pattern_match (shard_name W r) = Some (py_str W, py_str r)"
proof -
  have u: "\<not> is_digit (CHR ''_'')" and p: "\<not> is_digit (CHR ''.'')" by (simp_all add: is_digit_def)
  have n: "shard_name W r = ''model_world_size_'' @ (py_str W @ CHR ''_'' # (''rank_'' @ py_str r @ ''.pt''))"
    by (simp add: shard_name_def)
  have t1: "takeWhile is_digit (py_str W @ CHR ''_'' # (''rank_'' @ py_str r @ ''.pt'')) = py_str W"
    by (rule takeWhile_digits[OF py_str_digits u])
  have d1: "dropWhile is_digit (py_str W @ CHR ''_'' # (''rank_'' @ py_str r @ ''.pt'')) = ''_rank_'' @ (py_str r @ CHR ''.'' # ''pt'')"
    using dropWhile_digits[OF py_str_digits u, of W "''rank_'' @ py_str r @ ''.pt''"] by simp
  have t2: "takeWhile is_digit (py_str r @ CHR ''.'' # ''pt'') = py_str r"
    by (rule takeWhile_digits[OF py_str_digits p])
  have d2: "dropWhile is_digit (py_str r @ CHR ''.'' # ''pt'') = ''.pt'' @ []"
    using dropWhile_digits[OF py_str_digits p, of r "''pt''"] by simp
  show ?thesis
    unfolding pattern_match_def n strip_prefix_append option.case Let_def t1 d1 t2 d2
    by (simp add: py_str_nonempty)
qed

lemma glob_star_any: "glob_match (CHR ''*'' # ps) s \<Longrightarrow> glob_match (CHR ''*'' # ps) (c # s)"
  by simp

lemma glob_star_skip: "glob_match ps s \<Longrightarrow> glob_match (CHR ''*'' # ps) (pre @ s)"
  by (induction pre) auto

lemma glob_match_shard_name: "glob_match ''model_world_size_*_rank_*.pt'' (shard_name W r)"
proof -
  have a: "glob_match ''.pt'' ''.pt''" by simp
  have b: "glob_match ''*.pt'' (py_str r @ ''.pt'')"
    using glob_star_skip[OF a, of "py_str r"] by simp
  have c: "glob_match ''_rank_*.pt'' (''_rank_'' @ py_str r @ ''.pt'')" using b by simp
  have d: "glob_match ''*_rank_*.pt'' (py_str W @ ''_rank_'' @ py_str r @ ''.pt'')"
    using glob_star_skip[OF c, of "py_str W"] by simp
  show ?thesis using d by (simp add: shard_name_def)
qed

lemma the_tensors_map: "the_tensors (map Tensor ts) = Some ts"
  by (induction ts) auto

lemma the_tensors_Some: "the_tensors vs = Some ts \<Longrightarrow> vs = map Tensor ts"
  by (induction vs arbitrary: ts rule: the_tensors.induct) auto

lemma cat_values_Inr: "cat_values vs = Inr t \<Longrightarrow> \<exists>ts. vs = map Tensor ts \<and> torch_cat ts = Inr t"
  by (auto simp: cat_values_def split: option.splits dest: the_tensors_Some)

lemma sum_list_skipped:
  "sum_list (map (\<lambda>t. hd (shape t)) (filter (\<lambda>t. shape t \<noteq> [0]) ts)) = sum_list (map (\<lambda>t. hd (shape t)) ts)"
  by (induction ts) auto

lemma concat_skipped:
  "list_all wf_tensor ts \<Longrightarrow>
   concat (map entries (filter (\<lambda>t. shape t \<noteq> [0]) ts)) = concat (map entries ts)"
  by (induction ts) (auto simp: wf_tensor_def)

lemma torch_cat_result:
  assumes "torch_cat ts = Inr t"
  shows "hd (shape t) = sum_list (map (\<lambda>x. hd (shape x)) ts)"
    and "list_all wf_tensor ts \<Longrightarrow> entries t = concat (map entries ts)"
    and "list_all (\<lambda>x. shape x = [0] \<or> tl (shape x) = tl (shape t)) ts"
    and "shape t \<noteq> []"
proof -
  define ks where "ks = filter (\<lambda>t. shape t \<noteq> [0]) ts"
  have s: "sum_list (map (\<lambda>t. hd (shape t)) ks) = sum_list (map (\<lambda>t. hd (shape t)) ts)"
    unfolding ks_def by (rule sum_list_skipped)
  have c: "list_all wf_tensor ts \<Longrightarrow> concat (map entries ks) = concat (map entries ts)"
    unfolding ks_def by (rule concat_skipped)
  have all: "list_all (\<lambda>x. shape x = [0] \<or> x \<in> set ks) ts"
    by (auto simp: ks_def list_all_iff)
  show "hd (shape t) = sum_list (map (\<lambda>x. hd (shape x)) ts)"
    using assms s unfolding torch_cat_def ks_def[symmetric]
    by (cases ks) (auto split: if_splits)
  show "list_all wf_tensor ts \<Longrightarrow> entries t = concat (map entries ts)"
    using assms c unfolding torch_cat_def ks_def[symmetric]
    by (cases ks) (auto split: if_splits)
  show "list_all (\<lambda>x. shape x = [0] \<or> tl (shape x) = tl (shape t)) ts"
    using assms all unfolding torch_cat_def ks_def[symmetric]
    by (cases ks) (auto simp: list_all_iff split: if_splits)
  show "shape t \<noteq> []"
    using assms unfolding torch_cat_def ks_def[symmetric]
    by (cases ks) (auto split: if_splits)
qed

text \<open>
  C1. Let every discovered shard file embed the one world size \<open>W\<close>, and let the file of every
  rank below \<open>W\<close> exist. For a parameter \<open>k\<close> whose values over the ranks, in increasing rank
  order, are the tensors \<open>ts\<close>, and whose concatenation succeeds with \<open>t\<close>,
  \<open>load_sharded_model\<close> returns \<open>t\<close> for \<open>k\<close>; the elements of \<open>t\<close> are those of \<open>ts\<close> one
  after the other, its leading dimension is the sum of theirs, and its other dimensions are
  theirs.
\<close>

theorem C1_concatenation_in_rank_order:
  assumes "embedded_world_sizes d = {W}"
      and "\<forall>r<W. map_of d (shard_name W r) \<noteq> None"
      and "rank_values d W [0..<W] k = map Tensor ts"
      and "list_all wf_tensor ts"
      and "torch_cat ts = Inr t"
  shows "(\<exists>res. load_sharded_model d = Inr res \<and> map_of res k = Some (Tensor t)) \<and>
         entries t = concat (map entries ts) \<and>
         shape t = sum_list (map (\<lambda>x. hd (shape x)) ts) # tl (shape t) \<and>
         list_all (\<lambda>x. shape x = [0] \<or> tl (shape x) = tl (shape t)) ts"
proof -
  from load_sharded_model_ok[OF assms(1,2)]
  obtain res where res: "load_sharded_model d = Inr res"
    "\<forall>k. map_of res k = (case rank_values d W [0..<W] k of [] \<Rightarrow> None
                           | v # vs \<Rightarrow> Some (pick (v # vs)))" by auto
  have ne: "ts \<noteq> []" using assms(5) by (auto simp: torch_cat_def)
  have cv: "cat_values (map Tensor ts) = Inr t"
    using assms(5) by (simp add: cat_values_def the_tensors_map)
  have "map_of res k = Some (pick (map Tensor ts))"
    using res(2) assms(3) ne by (cases ts) (auto split: list.splits)
  then have m: "map_of res k = Some (Tensor t)" using cv by (simp add: pick_def)
  have sh: "shape t = hd (shape t) # tl (shape t)"
    using torch_cat_result(4)[OF assms(5)] by simp
  show ?thesis
    using res(1) m torch_cat_result(1)[OF assms(5)] torch_cat_result(2)[OF assms(5) assms(4)]
      torch_cat_result(3)[OF assms(5)] sh by auto
qed

lemma all_less_2: "(\<forall>r<(2::nat). P r) = (P 0 \<and> P 1)"
  by (auto simp: less_2_cases_iff)

lemma ckpt2_world: "embedded_world_sizes ckpt2 = {2}"
  by code_simp

lemma ckpt2_files: "\<forall>r<2. map_of ckpt2 (shard_name 2 r) \<noteq> None"
  unfolding all_less_2 by code_simp

lemma ckpt2_w: "rank_values ckpt2 2 [0..<2] ''w'' = map Tensor [\<lparr>shape = [1, 2], entries = [1, 2]\<rparr>, \<lparr>shape = [2, 2], entries = [3, 4, 5, 6]\<rparr>]"
  by code_simp

text \<open>C1 on two ranks: rows \<open>[1, 2]\<close> of rank 0, then rows \<open>[3, 4]\<close>, \<open>[5, 6]\<close> of rank 1.\<close>

theorem C1_witness:
  "(\<exists>res. load_sharded_model ckpt2 = Inr res \<and>
       map_of res ''w'' = Some (Tensor \<lparr>shape = [3, 2], entries = [1, 2, 3, 4, 5, 6]\<rparr>))"
proof -
  have c: "torch_cat [\<lparr>shape = [1, 2], entries = [1, 2]\<rparr>, \<lparr>shape = [2, 2], entries = [3, 4, 5, 6::int]\<rparr>]
     = Inr \<lparr>shape = [3, 2], entries = [1, 2, 3, 4, 5, 6]\<rparr>"
    by (simp add: torch_cat_def)
  have w: "list_all wf_tensor [\<lparr>shape = [1, 2], entries = [1, 2]\<rparr>, \<lparr>shape = [2, 2], entries = [3, 4, 5, 6::int]\<rparr>]"
    by (simp add: wf_tensor_def)
  show ?thesis
    using C1_concatenation_in_rank_order[OF ckpt2_world ckpt2_files ckpt2_w w c] by simp
qed

lemma load_no_files: "shard_files d = [] \<Longrightarrow> load_sharded_model d = Inl NoCheckpointFiles"
  by (simp add: load_sharded_model_def)

lemma load_inconsistent:
  "shard_files d \<noteq> [] \<Longrightarrow> card (embedded_world_sizes d) \<noteq> 1 \<Longrightarrow>
   load_sharded_model d = Inl (InconsistentWorldSize (embedded_world_sizes d))"
  using world_sizes_length[of d]
  by (simp add: load_sharded_model_def Let_def world_sizes_set embedded_world_sizes_def)

lemma load_single:
  "embedded_world_sizes d = {W} \<Longrightarrow>
   load_sharded_model d =
     (case load_shards d W [0..<W] [] of Inl e \<Rightarrow> Inl e | Inr sd \<Rightarrow> consolidate sd [])"
  using world_sizes_single[of d W] embedded_nonempty_files[of d]
  by (simp add: load_sharded_model_def)

lemma load_missing:
  assumes "embedded_world_sizes d = {W}" "r < W" "map_of d (shard_name W r) = None"
    "\<forall>r'<r. map_of d (shard_name W r') \<noteq> None"
  shows "load_sharded_model d = Inl (MissingShardFile (shard_name W r))"
proof -
  have "[0..<r + (W - r)] = [0..<r] @ [r..<r + (W - r)]"
    by (rule upt_add_eq_append) simp
  then have "[0..<W] = [0..<r] @ r # [Suc r..<W]"
    using assms(2) by (simp add: upt_conv_Cons)
  moreover have "\<forall>r'\<in>set [0..<r]. map_of d (shard_name W r') \<noteq> None" using assms(4) by simp
  ultimately have "load_shards d W [0..<W] [] = Inl (MissingShardFile (shard_name W r))"
    using load_shards_missing[OF assms(3), of "[0..<r]" "[Suc r..<W]" "[]"] by simp
  then show ?thesis using load_single[OF assms(1)] by simp
qed

text \<open>
  C2. \<open>load_sharded_model\<close> ends with an error, and returns no state, in each discovery
  failure: no file matches the glob (\<open>NoCheckpointFiles\<close>); files match but the number of
  embedded world sizes is not one, in particular more than one (\<open>InconsistentWorldSize\<close>);
  the world size is the single \<open>W\<close> and some rank below \<open>W\<close> has no file
  (\<open>MissingShardFile\<close>, naming the file of the first such rank).
\<close>

theorem C2_discovery_errors:
  "(shard_files d = [] \<longrightarrow> load_sharded_model d = Inl NoCheckpointFiles) \<and>
   (shard_files d \<noteq> [] \<and> card (embedded_world_sizes d) \<noteq> 1 \<longrightarrow>
      load_sharded_model d = Inl (InconsistentWorldSize (embedded_world_sizes d))) \<and>
   (embedded_world_sizes d = {W} \<and> r < W \<and> map_of d (shard_name W r) = None \<and>
      (\<forall>r'<r. map_of d (shard_name W r') \<noteq> None) \<longrightarrow>
      load_sharded_model d = Inl (MissingShardFile (shard_name W r))) \<and>
   (embedded_world_sizes d = {W} \<and> (\<exists>r<W. map_of d (shard_name W r) = None) \<longrightarrow>
      (\<exists>r<W. map_of d (shard_name W r) = None \<and>
              load_sharded_model d = Inl (MissingShardFile (shard_name W r))))"
proof -
  have 4: "\<exists>r<W. map_of d (shard_name W r) = None \<and>
              load_sharded_model d = Inl (MissingShardFile (shard_name W r))"
    if a: "embedded_world_sizes d = {W}" and b: "\<exists>r<W. map_of d (shard_name W r) = None"
  proof -
    define P where "P = (\<lambda>r. r < W \<and> map_of d (shard_name W r) = None)"
    have ex: "\<exists>r. P r" using b by (auto simp: P_def)
    define m where "m = (LEAST r. P r)"
    have Pm: "P m" unfolding m_def using ex by (auto intro: LeastI)
    have least: "\<And>r'. r' < m \<Longrightarrow> \<not> P r'" unfolding m_def by (rule not_less_Least)
    have "\<forall>r'<m. map_of d (shard_name W r') \<noteq> None"
      using least Pm by (auto simp: P_def)
    then have "load_sharded_model d = Inl (MissingShardFile (shard_name W m))"
      using load_missing[OF a, of m] Pm by (simp add: P_def)
    then show ?thesis using Pm by (auto simp: P_def)
  qed
  show ?thesis using load_no_files load_inconsistent load_missing 4 by blast
qed

text \<open>
  C2 on an empty directory, on one with world sizes 2 and 4, and on world size 3 with ranks 0
  and 2 only.
\<close>

theorem C2_witness:
  "load_sharded_model ([] :: int checkpoint_dir) = Inl NoCheckpointFiles \<and>
   load_sharded_model ckpt_mixed = Inl (InconsistentWorldSize {2, 4}) \<and>
   load_sharded_model ckpt_gap = Inl (MissingShardFile ''model_world_size_3_rank_1.pt'')"
proof -
  have e: "shard_files ([] :: int checkpoint_dir) = []" by (simp add: shard_files_def)
  have m1: "shard_files ckpt_mixed \<noteq> []" by code_simp
  have m2: "embedded_world_sizes ckpt_mixed = {2, 4}" by code_simp
  have m3: "card (embedded_world_sizes ckpt_mixed) \<noteq> 1" unfolding m2 by simp
  have g1: "embedded_world_sizes ckpt_gap = {3}" by code_simp
  have g2: "map_of ckpt_gap (shard_name 3 1) = None" by code_simp
  have g3: "map_of ckpt_gap (shard_name 3 0) \<noteq> None" by code_simp
  have g4: "\<forall>r'<1. map_of ckpt_gap (shard_name 3 r') \<noteq> None" using g3 by simp
  have g5: "shard_name 3 1 = ''model_world_size_3_rank_1.pt''" by code_simp
  show ?thesis
    using C2_discovery_errors[of "[] :: int checkpoint_dir"] e
      C2_discovery_errors[of ckpt_mixed] m1 m2 m3
      C2_discovery_errors[of ckpt_gap 3 1] g1 g2 g4 g5
    by simp
qed

lemma map_of_key_values:
  "map_of s k = Some y \<Longrightarrow> \<exists>xs. key_values k s = to_local y # xs"
  by (induction s) (auto simp: key_values_def split: if_splits)

lemma rank_values_first:
  "0 < W \<Longrightarrow> map_of d (shard_name W 0) = Some s \<Longrightarrow>
   rank_values d W [0..<W] k = key_values k s @ rank_values d W [1..<W] k"
  by (simp add: rank_values_def upt_conv_Cons)

text \<open>
  C3. Let discovery succeed with world size \<open>W\<close>, and let the values of parameter \<open>k\<close> over the
  ranks, in increasing rank order, be \<open>v # vs\<close>, with a concatenation that raises. Then
  \<open>load_sharded_model\<close> does not raise; the consolidated value of \<open>k\<close> is \<open>v\<close>, the first of
  them, which is the value of rank 0 (made local) whenever the shard of rank 0 holds \<open>k\<close>; and
  every parameter whose values do concatenate gets its concatenation.
\<close>

theorem C3_fallback_to_first_value:
  assumes "embedded_world_sizes d = {W}"
      and "\<forall>r<W. map_of d (shard_name W r) \<noteq> None"
      and "rank_values d W [0..<W] k = v # vs"
      and "cat_values (v # vs) = Inl e"
  shows "\<exists>res. load_sharded_model d = Inr res \<and> map_of res k = Some v \<and>
           (\<forall>s y. map_of d (shard_name W 0) = Some s \<and> map_of s k = Some y \<longrightarrow> v = to_local y) \<and>
           (\<forall>k' t. cat_values (rank_values d W [0..<W] k') = Inr t \<longrightarrow>
                     map_of res k' = Some (Tensor t))"
proof -
  from load_sharded_model_ok[OF assms(1,2)]
  obtain res where res: "load_sharded_model d = Inr res"
    "\<forall>k. map_of res k = (case rank_values d W [0..<W] k of [] \<Rightarrow> None
                           | v # vs \<Rightarrow> Some (pick (v # vs)))" by auto
  have a: "map_of res k = Some v"
    using res(2) assms(3,4) by (simp add: pick_def)
  have W: "0 < W" using assms(3) by (cases W) (auto simp: rank_values_def)
  have b: "v = to_local y" if "map_of d (shard_name W 0) = Some s" "map_of s k = Some y" for s y
    using rank_values_first[OF W that(1), of k] map_of_key_values[OF that(2)] assms(3) by auto
  have c: "map_of res k' = Some (Tensor t)" if "cat_values (rank_values d W [0..<W] k') = Inr t" for k' t
  proof -
    have "rank_values d W [0..<W] k' \<noteq> []"
      using that by (auto simp: cat_values_def torch_cat_def)
    then show ?thesis using res(2) that by (auto simp: pick_def split: list.splits)
  qed
  show ?thesis using res(1) a b c by blast
qed

text \<open>C3 on shapes \<open>[1, 2]\<close> and \<open>[1, 3]\<close> for \<open>w\<close>, next to a \<open>b\<close> that concatenates.\<close>

theorem C3_witness:
  "load_sharded_model ckpt_mismatch =
     Inr [(''w'', Tensor \<lparr>shape = [1, 2], entries = [1, 2]\<rparr>),
          (''b'', Tensor \<lparr>shape = [2], entries = [8, 9]\<rparr>)]"
proof -
  have h1: "embedded_world_sizes ckpt_mismatch = {2}" by code_simp
  have h2: "\<forall>r<2. map_of ckpt_mismatch (shard_name 2 r) \<noteq> None"
    unfolding all_less_2 by code_simp
  have h3: "rank_values ckpt_mismatch 2 [0..<2] ''w'' =
      Tensor \<lparr>shape = [1, 2], entries = [1, 2]\<rparr> # [Tensor \<lparr>shape = [1, 3], entries = [3, 4, 5]\<rparr>]"
    by code_simp
  have h4: "cat_values (Tensor \<lparr>shape = [1, 2], entries = [1, 2]\<rparr> # [Tensor \<lparr>shape = [1, 3], entries = [3, 4, 5::int]\<rparr>])
      = Inl RuntimeError"
    by (simp add: cat_values_def torch_cat_def)
  have "\<exists>res. load_sharded_model ckpt_mismatch = Inr res \<and>
          map_of res ''w'' = Some (Tensor \<lparr>shape = [1, 2], entries = [1, 2]\<rparr>)"
    using C3_fallback_to_first_value[OF h1 h2 h3 h4] by blast
  moreover have "load_sharded_model ckpt_mismatch =
     Inr [(''w'', Tensor \<lparr>shape = [1, 2], entries = [1, 2]\<rparr>),
          (''b'', Tensor \<lparr>shape = [2], entries = [8, 9]\<rparr>)]" by code_simp
  ultimately show ?thesis by simp
qed

lemma load_shards_agree:
  "\<forall>r\<in>set ranks. map_of d (shard_name W r) = map_of d' (shard_name W r) \<Longrightarrow>
   load_shards d W ranks sd = load_shards d' W ranks sd"
proof (induction ranks arbitrary: sd)
  case Nil
  show ?case by simp
next
  case (Cons r ranks)
  have same: "map_of d (shard_name W r) = map_of d' (shard_name W r)" using Cons.prems by simp
  have rest: "\<And>sd. load_shards d W ranks sd = load_shards d' W ranks sd"
    using Cons.IH Cons.prems by simp
  show ?case by (simp add: same rest Let_def split: option.splits)
qed

lemma load_agree:
  assumes "embedded_world_sizes d = {W}" "embedded_world_sizes d' = {W}"
    "\<forall>r<W. map_of d (shard_name W r) = map_of d' (shard_name W r)"
  shows "load_sharded_model d = load_sharded_model d'"
proof -
  have "load_shards d W [0..<W] [] = load_shards d' W [0..<W] []"
    using assms(3) by (intro load_shards_agree) simp
  then show ?thesis using load_single[OF assms(1)] load_single[OF assms(2)] by simp
qed

lemma embedded_Cons:
  "embedded_world_sizes ((f, s) # d) =
     (if glob_match ''model_world_size_*_rank_*.pt'' f
      then (case pattern_match f of None \<Rightarrow> embedded_world_sizes d
            | Some (g1, g2) \<Rightarrow> insert (py_int g1) (embedded_world_sizes d))
      else embedded_world_sizes d)"
  by (auto simp: embedded_world_sizes_def shard_files_def split: option.splits)

lemma load_extra_file:
  assumes "embedded_world_sizes d = {W}"
    and "pattern_match f = None \<or> (\<exists>g1 g2. pattern_match f = Some (g1, g2) \<and> py_int g1 = W \<and> W \<le> py_int g2)"
  shows "load_sharded_model ((f, s) # d) = load_sharded_model d"
proof -
  have e: "embedded_world_sizes ((f, s) # d) = {W}"
  proof (cases "pattern_match f")
    case None
    then show ?thesis using assms(1) by (simp add: embedded_Cons)
  next
    case (Some m)
    obtain g1 g2 where m: "m = (g1, g2)" by (cases m)
    have "py_int g1 = W" using assms(2) Some m by simp
    then show ?thesis using assms(1) Some m by (simp add: embedded_Cons)
  qed
  have ne: "f \<noteq> shard_name W r" if "r < W" for r
  proof
    assume "f = shard_name W r"
    then have pm: "pattern_match f = Some (py_str W, py_str r)"
      by (simp only: pattern_match_shard_name)
    have "W \<le> py_int (py_str r)" using assms(2) unfolding pm by simp
    then show False using that by (simp only: py_int_py_str)
  qed
  have "map_of ((f, s) # d) (shard_name W r) = map_of d (shard_name W r)" if "r < W" for r
    using ne[OF that] by simp
  then have "\<forall>r<W. map_of ((f, s) # d) (shard_name W r) = map_of d (shard_name W r)"
    by blast
  then show ?thesis by (rule load_agree[OF e assms(1)])
qed

lemma load_only_unmatched:
  assumes "shard_files d \<noteq> []" "\<forall>f\<in>set (shard_files d). pattern_match f = None"
  shows "load_sharded_model d = Inl (InconsistentWorldSize {})"
proof -
  have "List.map_filter pattern_match (shard_files d) = []"
    using assms(2) by (induction "shard_files d") (auto simp: List.map_filter_def filter_empty_conv)
  then have "embedded_world_sizes d = {}" by (simp add: embedded_world_sizes_def)
  then show ?thesis using load_inconsistent[OF assms(1)] by simp
qed

text \<open>
  C8. With a single embedded world size \<open>W\<close>, the result of \<open>load_sharded_model\<close> depends on
  the files named for the ranks below \<open>W\<close> only: two directories that agree on those files load
  to the same result; in particular a further file whose name does not match the numeric
  pattern, or matches it with world size \<open>W\<close> and a rank of at least \<open>W\<close>, changes nothing. A
  directory whose discovered files all fail the numeric pattern ends with
  \<open>InconsistentWorldSize\<close> (of no world size at all), not with \<open>NoCheckpointFiles\<close>.
\<close>

theorem C8_extra_files_ignored:
  "(embedded_world_sizes d = {W} \<and> embedded_world_sizes d' = {W} \<and>
      (\<forall>r<W. map_of d (shard_name W r) = map_of d' (shard_name W r)) \<longrightarrow>
      load_sharded_model d = load_sharded_model d') \<and>
   (embedded_world_sizes d = {W} \<and>
      (pattern_match f = None \<or>
       (\<exists>g1 g2. pattern_match f = Some (g1, g2) \<and> py_int g1 = W \<and> W \<le> py_int g2)) \<longrightarrow>
      load_sharded_model ((f, s) # d) = load_sharded_model d) \<and>
   (shard_files d \<noteq> [] \<and> (\<forall>f\<in>set (shard_files d). pattern_match f = None) \<longrightarrow>
      load_sharded_model d = Inl (InconsistentWorldSize {}))"
  using load_agree[of d W d'] load_extra_file[of d W f s] load_only_unmatched[of d] by blast

text \<open>
  C8 on the two-rank checkpoint with a file of rank 7 and a file with a non-numeric world
  size added, and on a directory holding only a file with non-numeric fields.
\<close>

theorem C8_witness:
  "load_sharded_model
      ((''model_world_size_2_rank_7.pt'', junk) # (''model_world_size_two_rank_0.pt'', junk) # ckpt2)
     = load_sharded_model ckpt2 \<and>
   load_sharded_model ((''model_world_size_two_rank_0.pt'', junk) # ckpt2) = load_sharded_model ckpt2 \<and>
   load_sharded_model ((''model_world_size_2_rank_7.pt'', junk) # ckpt2) = load_sharded_model ckpt2 \<and>
   load_sharded_model ckpt_unmatched = Inl (InconsistentWorldSize {})"
proof -
  define d' where "d' = (''model_world_size_2_rank_7.pt'', junk) # (''model_world_size_two_rank_0.pt'', junk) # ckpt2"
  have a1: "embedded_world_sizes d' = {2}" unfolding d'_def by code_simp
  have a2: "\<forall>r<2. map_of d' (shard_name 2 r) = map_of ckpt2 (shard_name 2 r)"
    unfolding all_less_2 d'_def by code_simp
  have b1: "pattern_match ''model_world_size_two_rank_0.pt'' = None" by code_simp
  have b2: "pattern_match ''model_world_size_2_rank_7.pt'' = Some (''2'', ''7'')" by code_simp
  have b3: "py_int ''2'' = 2 \<and> 2 \<le> py_int ''7''" by code_simp
  have c1: "shard_files ckpt_unmatched \<noteq> []" by code_simp
  have c2: "\<forall>f\<in>set (shard_files ckpt_unmatched). pattern_match f = None" by code_simp
  show ?thesis
    using C8_extra_files_ignored[of d' 2 ckpt2 "''model_world_size_two_rank_0.pt''" junk]
      C8_extra_files_ignored[of ckpt2 2 ckpt2 "''model_world_size_two_rank_0.pt''" junk]
      C8_extra_files_ignored[of ckpt2 2 ckpt2 "''model_world_size_2_rank_7.pt''" junk]
      C8_extra_files_ignored[of ckpt_unmatched 0 ckpt_unmatched "''''" junk]
      a1 a2 b1 b2 b3 c1 c2 ckpt2_world
    unfolding d'_def[symmetric] by simp
qed

end
